theory Spec2Isabelle
  imports Main "HOL-Library.Sublist" "HOL-Library.Multiset"
begin

section \<open>JavaScript values\<close>

text \<open>
  A JavaScript string is modelled as the list of its characters' code points (all text
  of the repository lies in the Basic Multilingual Plane, where a UTF-16 code unit is a
  code point). \<open>ascii\<close> embeds an ASCII literal; the Vietnamese messages of the
  source are written with their accented letters as code points.
\<close>

type_synonym js_string = "nat list"

definition ascii :: "string \<Rightarrow> js_string" where
  "ascii cs = map of_char cs"

text \<open>
  The dynamically typed values the repository's parameters can hold. \<open>JNum\<close> holds
  an integer (identifiers and flags; \<open>NaN\<close> and fractions are left out), \<open>JObj\<close>
  stands for any object or array: the code only tests its truthiness and its type.
\<close>

datatype js_value = JUndefined | JNull | JBool bool | JNum int | JStr js_string | JObj

text \<open>\<open>!v\<close> is \<open>\<not> truthy v\<close>.\<close>

fun truthy :: "js_value \<Rightarrow> bool" where
  "truthy JUndefined = False"
| "truthy JNull = False"
| "truthy (JBool b) = b"
| "truthy (JNum n) = (n \<noteq> 0)"
| "truthy (JStr s) = (s \<noteq> [])"
| "truthy JObj = True"

fun typeof :: "js_value \<Rightarrow> string" where
  "typeof JUndefined = ''undefined''"
| "typeof JNull = ''object''"
| "typeof (JBool b) = ''boolean''"
| "typeof (JNum n) = ''number''"
| "typeof (JStr s) = ''string''"
| "typeof JObj = ''object''"

text \<open>
  \<open>String.prototype.trim\<close> strips ECMAScript's WhiteSpace and LineTerminator
  characters from both ends.
\<close>

definition is_white_space :: "nat \<Rightarrow> bool" where
  "is_white_space c \<longleftrightarrow>
     c \<in> {0x9, 0xA, 0xB, 0xC, 0xD, 0x20, 0xA0, 0x1680, 0x2028, 0x2029, 0x202F, 0x205F,
          0x3000, 0xFEFF} \<or> (0x2000 \<le> c \<and> c \<le> 0x200A)"

definition trim :: "js_string \<Rightarrow> js_string" where
  "trim s = rev (dropWhile is_white_space (rev (dropWhile is_white_space s)))"

text \<open>
  A plain object read by property name: \<open>filters.status\<close> is \<open>property filters ''status''\<close>,
  and an absent property reads as \<open>undefined\<close>.
\<close>

type_synonym js_object = "string \<rightharpoonup> js_value"

definition property :: "js_object \<Rightarrow> string \<Rightarrow> js_value" where
  "property obj k = (case obj k of None \<Rightarrow> JUndefined | Some v \<Rightarrow> v)"

text \<open>An \<open>Error\<close> object is its message.\<close>

datatype js_error = Error (message: js_string)

section \<open>The messages of the source\<close>

text \<open>
  In the order of the source file: the prefixes of the operation-specific errors and
  the messages of the errors the repository raises itself. Transliterated:
  "Loi khi lay danh sach thu thach: ", "Khong tim thay thu thach voi ID da cho.",
  "Loi khi lay thu thach theo ID: ", "Khong tim thay thu thach de cap nhat.",
  "Loi khi cap nhat thu thach: ", "Khong tim thay thu thach de xoa.",
  "Thu thach da duoc xoa thanh cong.", "Loi khi xoa thu thach: ",
  "Loi khi tim kiem thu thach: ", "Trang thai khong duoc de trong.",
  "Loi khi lay thu thach theo trang thai: ".
\<close>

definition list_failed :: js_string where
  "list_failed = ascii ''L'' @ [0x1ED7] @ ascii ''i khi l'' @ [0x1EA5] @ ascii ''y danh s''
     @ [0xE1] @ ascii ''ch th'' @ [0x1EED] @ ascii '' th'' @ [0xE1] @ ascii ''ch: ''"

definition get_not_found :: js_string where
  "get_not_found = ascii ''Kh'' @ [0xF4] @ ascii ''ng t'' @ [0xEC] @ ascii ''m th''
     @ [0x1EA5] @ ascii ''y th'' @ [0x1EED] @ ascii '' th'' @ [0xE1] @ ascii ''ch v''
     @ [0x1EDB] @ ascii ''i ID '' @ [0x111, 0xE3] @ ascii '' cho.''"

definition get_failed :: js_string where
  "get_failed = ascii ''L'' @ [0x1ED7] @ ascii ''i khi l'' @ [0x1EA5] @ ascii ''y th''
     @ [0x1EED] @ ascii '' th'' @ [0xE1] @ ascii ''ch theo ID: ''"

definition update_not_found :: js_string where
  "update_not_found = ascii ''Kh'' @ [0xF4] @ ascii ''ng t'' @ [0xEC] @ ascii ''m th''
     @ [0x1EA5] @ ascii ''y th'' @ [0x1EED] @ ascii '' th'' @ [0xE1] @ ascii ''ch ''
     @ [0x111, 0x1EC3] @ ascii '' c'' @ [0x1EAD] @ ascii ''p nh'' @ [0x1EAD] @ ascii ''t.''"

definition update_failed :: js_string where
  "update_failed = ascii ''L'' @ [0x1ED7] @ ascii ''i khi c'' @ [0x1EAD] @ ascii ''p nh''
     @ [0x1EAD] @ ascii ''t th'' @ [0x1EED] @ ascii '' th'' @ [0xE1] @ ascii ''ch: ''"

definition delete_not_found :: js_string where
  "delete_not_found = ascii ''Kh'' @ [0xF4] @ ascii ''ng t'' @ [0xEC] @ ascii ''m th''
     @ [0x1EA5] @ ascii ''y th'' @ [0x1EED] @ ascii '' th'' @ [0xE1] @ ascii ''ch ''
     @ [0x111, 0x1EC3] @ ascii '' x'' @ [0xF3] @ ascii ''a.''"

definition delete_message :: js_string where
  "delete_message = ascii ''Th'' @ [0x1EED] @ ascii '' th'' @ [0xE1] @ ascii ''ch ''
     @ [0x111, 0xE3] @ ascii '' '' @ [0x111, 0x1B0, 0x1EE3] @ ascii ''c x'' @ [0xF3]
     @ ascii ''a th'' @ [0xE0] @ ascii ''nh c'' @ [0xF4] @ ascii ''ng.''"

definition delete_failed :: js_string where
  "delete_failed = ascii ''L'' @ [0x1ED7] @ ascii ''i khi x'' @ [0xF3] @ ascii ''a th''
     @ [0x1EED] @ ascii '' th'' @ [0xE1] @ ascii ''ch: ''"

definition search_failed :: js_string where
  "search_failed = ascii ''L'' @ [0x1ED7] @ ascii ''i khi t'' @ [0xEC] @ ascii ''m ki''
     @ [0x1EBF] @ ascii ''m th'' @ [0x1EED] @ ascii '' th'' @ [0xE1] @ ascii ''ch: ''"

definition status_empty :: js_string where
  "status_empty = ascii ''Tr'' @ [0x1EA1] @ ascii ''ng th'' @ [0xE1] @ ascii ''i kh''
     @ [0xF4] @ ascii ''ng '' @ [0x111, 0x1B0, 0x1EE3] @ ascii ''c '' @ [0x111, 0x1EC3]
     @ ascii '' tr'' @ [0x1ED1] @ ascii ''ng.''"

definition status_failed :: js_string where
  "status_failed = ascii ''L'' @ [0x1ED7] @ ascii ''i khi l'' @ [0x1EA5] @ ascii ''y th''
     @ [0x1EED] @ ascii '' th'' @ [0xE1] @ ascii ''ch theo tr'' @ [0x1EA1] @ ascii ''ng th''
     @ [0xE1] @ ascii ''i: ''"

section \<open>The challenge table and the store provider\<close>

text \<open>
  Modelled from the spec: the record schema \<open>../models/challenge\<close> and the store
  provider behind it (the object-relational mapper and its table) are not among the
  sources. A row has the attributes of the spec's data model; the identifier is an
  integer and \<open>created_at\<close> a point in time, counted as an integer.
\<close>

record challenge =
  id_col :: int
  title :: js_string
  description :: js_string
  reward_type :: js_string
  reward_value :: int
  due_date :: "int option"
  status :: js_string
  is_weekly :: bool
  recurrence_rule :: "js_string option"
  community_member_id :: int
  created_at :: int

text \<open>The value of a row's attribute, as a query condition sees it.\<close>

definition attr :: "challenge \<Rightarrow> string \<Rightarrow> js_value" where
  "attr r k =
     (if k = ''id'' then JNum (id_col r)
      else if k = ''title'' then JStr (title r)
      else if k = ''description'' then JStr (description r)
      else if k = ''reward_type'' then JStr (reward_type r)
      else if k = ''reward_value'' then JNum (reward_value r)
      else if k = ''due_date'' then (case due_date r of None \<Rightarrow> JNull | Some d \<Rightarrow> JNum d)
      else if k = ''status'' then JStr (status r)
      else if k = ''is_weekly'' then JBool (is_weekly r)
      else if k = ''recurrence_rule'' then
        (case recurrence_rule r of None \<Rightarrow> JNull | Some t \<Rightarrow> JStr t)
      else if k = ''community_member_id'' then JNum (community_member_id r)
      else if k = ''created_at'' then JNum (created_at r)
      else JUndefined)"

text \<open>
  Modelled from the spec: the provider's pattern match \<open>Op.like\<close>, the LIKE of SQL with
  no escape character: \<open>%\<close> (37) matches any sequence of characters, \<open>_\<close> (95) any
  single character, every other character itself.
\<close>

fun like :: "js_string \<Rightarrow> js_string \<Rightarrow> bool" where
  "like [] [] = True"
| "like [] (c # cs) = False"
| "like (p # ps) [] = (p = 37 \<and> like ps [])"
| "like (p # ps) (c # cs) =
     (if p = 37 then like ps (c # cs) \<or> like (p # ps) cs
      else if p = 95 then like ps cs
      else p = c \<and> like ps cs)"

text \<open>
  Modelled from the spec: the provider's query-condition vocabulary. A where object
  lists attributes with their conditions, all of which must hold: a plain value is an
  exact match, \<open>{[Op.like]: pattern}\<close> a pattern match. \<open>{[Op.or]: [...]}\<close> holds
  when one of its where objects does.
\<close>

datatype condition = Equals js_value | Like js_string

datatype where_clause = Where "(string \<times> condition) list" | OpOr "where_clause list"

fun attr_holds :: "condition \<Rightarrow> js_value \<Rightarrow> bool" where
  "attr_holds (Equals v) x = (x = v)"
| "attr_holds (Like p) x = (case x of JStr t \<Rightarrow> like p t | _ \<Rightarrow> False)"

fun holds :: "where_clause \<Rightarrow> challenge \<Rightarrow> bool" where
  "holds (Where kvs) r = list_all (\<lambda>(k, c). attr_holds c (attr r k)) kvs"
| "holds (OpOr ws) r = list_ex (\<lambda>w. holds w r) ws"

text \<open>\<open>order: [['created_at', 'DESC']]\<close>: newest first.\<close>

definition order_desc :: "challenge list \<Rightarrow> challenge list" where
  "order_desc rs = sort_key (\<lambda>r. - created_at r) rs"

text \<open>
  Modelled from the spec: the state of the provider. \<open>rows\<close> is the table. Every
  request to the provider is logged in \<open>calls\<close>; \<open>failures\<close> says which requests the
  provider rejects, and with what message: the request made after \<open>n\<close> earlier ones
  fails when \<open>failures n\<close> is a message.

  The record schema \<open>../models/challenge\<close> is not among the sources, and it decides
  which attributes an instance update may write (an assigned primary key and a
  timestamp the provider manages are withheld, a plain column is written). That
  decision is the parameter \<open>read_only\<close>: the names of the attributes withheld.
\<close>

datatype provider_call = FindAllCall | FindByPkCall | UpdateCall | DestroyCall

record store =
  rows :: "challenge list"
  failures :: "nat \<Rightarrow> js_string option"
  calls :: "provider_call list"
  read_only :: "string set"

text \<open>
  An asynchronous computation of the repository: from the provider's state to a value
  or a thrown error, and the state after it.
\<close>

type_synonym 'a async = "store \<Rightarrow> (js_error + 'a) \<times> store"

definition return :: "'a \<Rightarrow> 'a async" where
  "return v s = (Inr v, s)"

definition throw :: "js_error \<Rightarrow> 'a async" where
  "throw e s = (Inl e, s)"

text \<open>\<open>const x = await m; k x\<close>\<close>

definition await :: "'a async \<Rightarrow> ('a \<Rightarrow> 'b async) \<Rightarrow> 'b async" where
  "await m k s = (case m s of (Inl e, s') \<Rightarrow> (Inl e, s') | (Inr v, s') \<Rightarrow> k v s')"

text \<open>
  \<open>try { body } catch (error) { throw handler error }\<close>: every catch block of the
  source ends by throwing, the caught error or a new one.
\<close>

definition try_catch :: "'a async \<Rightarrow> (js_error \<Rightarrow> js_error) \<Rightarrow> 'a async" where
  "try_catch body handler s =
     (case body s of (Inl e, s') \<Rightarrow> (Inl (handler e), s') | (Inr v, s') \<Rightarrow> (Inr v, s'))"

text \<open>A request to the provider: logged, then rejected or answered.\<close>

definition request :: "provider_call \<Rightarrow> (store \<Rightarrow> 'a \<times> store) \<Rightarrow> 'a async" where
  "request c answer s =
     (let s' = s\<lparr>calls := calls s @ [c]\<rparr>
      in case failures s (length (calls s)) of
           Some m \<Rightarrow> (Inl (Error m), s')
         | None \<Rightarrow> (case answer s' of (v, s'') \<Rightarrow> (Inr v, s'')))"

text \<open>
  Modelled from the spec: \<open>findAll(where, order)\<close>, the rows that satisfy the
  condition, newest first, and \<open>findByPk\<close>, the row with the identifier, or
  \<open>null\<close> (\<open>None\<close>).
\<close>

definition findAll :: "where_clause \<Rightarrow> challenge list async" where
  "findAll w = request FindAllCall (\<lambda>s. (order_desc (filter (holds w) (rows s)), s))"

definition findByPk :: "int \<Rightarrow> challenge option async" where
  "findByPk i = request FindByPkCall (\<lambda>s. (find (\<lambda>r. id_col r = i) (rows s), s))"

text \<open>
  The partial field set of an update: each attribute is supplied (\<open>Some\<close>) or not.
\<close>

record update_data =
  new_id :: "int option"
  new_title :: "js_string option"
  new_description :: "js_string option"
  new_reward_type :: "js_string option"
  new_reward_value :: "int option"
  new_due_date :: "int option option"
  new_status :: "js_string option"
  new_is_weekly :: "bool option"
  new_recurrence_rule :: "js_string option option"
  new_community_member_id :: "int option"
  new_created_at :: "int option"

definition supplied :: "'a option \<Rightarrow> 'a \<Rightarrow> 'a" where
  "supplied new old = (case new of None \<Rightarrow> old | Some v \<Rightarrow> v)"

text \<open>
  Modelled from the spec: the provider's instance update changes the supplied fields
  and leaves the others. Every attribute, \<open>id\<close> and \<open>created_at\<close> among them, is
  treated alike: an attribute the schema withholds keeps its value, any other takes
  the supplied one.
\<close>

definition written :: "string set \<Rightarrow> string \<Rightarrow> 'a option \<Rightarrow> 'a \<Rightarrow> 'a" where
  "written withheld k new old = (if k \<in> withheld then old else supplied new old)"

definition set_fields :: "string set \<Rightarrow> update_data \<Rightarrow> challenge \<Rightarrow> challenge" where
  "set_fields withheld d r = r
     \<lparr> id_col := written withheld ''id'' (new_id d) (id_col r),
       title := written withheld ''title'' (new_title d) (title r),
       description := written withheld ''description'' (new_description d) (description r),
       reward_type := written withheld ''reward_type'' (new_reward_type d) (reward_type r),
       reward_value := written withheld ''reward_value'' (new_reward_value d) (reward_value r),
       due_date := written withheld ''due_date'' (new_due_date d) (due_date r),
       status := written withheld ''status'' (new_status d) (status r),
       is_weekly := written withheld ''is_weekly'' (new_is_weekly d) (is_weekly r),
       recurrence_rule :=
         written withheld ''recurrence_rule'' (new_recurrence_rule d) (recurrence_rule r),
       community_member_id :=
         written withheld ''community_member_id'' (new_community_member_id d)
           (community_member_id r),
       created_at := written withheld ''created_at'' (new_created_at d) (created_at r) \<rparr>"

definition instance_update :: "challenge \<Rightarrow> update_data \<Rightarrow> challenge async" where
  "instance_update r d = request UpdateCall (\<lambda>s.
     (set_fields (read_only s) d r,
      s\<lparr>rows := map (\<lambda>x. if id_col x = id_col r then set_fields (read_only s) d r else x)
               (rows s)\<rparr>))"

definition instance_destroy :: "challenge \<Rightarrow> unit async" where
  "instance_destroy r = request DestroyCall (\<lambda>s.
     ((), s\<lparr>rows := filter (\<lambda>x. id_col x \<noteq> id_col r) (rows s)\<rparr>))"

text \<open>\<open>toJSON\<close>: the plain object of an instance, its data values.\<close>

definition toJSON :: "challenge \<Rightarrow> challenge" where
  "toJSON r = r"

section \<open>ChallengeRepository\<close>

text \<open>
  \<open>getAllChallenges(filters = {})\<close>: the where object starts empty and gets one
  attribute per filter that passes its test. A call with no argument is the call with
  the empty object.
\<close>

definition getAllChallenges :: "js_object \<Rightarrow> challenge list async" where
  "getAllChallenges filters = try_catch
     (let whereClause = [];
          whereClause =
            (if truthy (property filters ''status'')
             then whereClause @ [(''status'', Equals (property filters ''status''))]
             else whereClause);
          whereClause =
            (if truthy (property filters ''community_member_id'')
             then whereClause @
               [(''community_member_id'', Equals (property filters ''community_member_id''))]
             else whereClause);
          whereClause =
            (if property filters ''is_weekly'' \<noteq> JUndefined
             then whereClause @ [(''is_weekly'', Equals (property filters ''is_weekly''))]
             else whereClause)
      in await (findAll (Where whereClause)) (\<lambda>challenges.
         return (map toJSON challenges)))
     (\<lambda>error. Error (list_failed @ message error))"

definition getChallengeById :: "int \<Rightarrow> challenge async" where
  "getChallengeById i = try_catch
     (await (findByPk i) (\<lambda>challenge.
        case challenge of
          None \<Rightarrow> throw (Error get_not_found)
        | Some c \<Rightarrow> return (toJSON c)))
     (\<lambda>error.
        if message error = get_not_found then error
        else Error (get_failed @ message error))"

definition updateChallenge :: "int \<Rightarrow> update_data \<Rightarrow> challenge async" where
  "updateChallenge i updateData = try_catch
     (await (findByPk i) (\<lambda>challenge.
        case challenge of
          None \<Rightarrow> throw (Error update_not_found)
        | Some c \<Rightarrow>
            await (instance_update c updateData) (\<lambda>updatedChallenge.
            return (toJSON updatedChallenge))))
     (\<lambda>error.
        if message error = update_not_found then error
        else Error (update_failed @ message error))"

record deleted =
  deleted_id :: int
  deleted_flag :: bool
  deleted_message :: js_string

definition deleteChallenge :: "int \<Rightarrow> deleted async" where
  "deleteChallenge i = try_catch
     (await (findByPk i) (\<lambda>challenge.
        case challenge of
          None \<Rightarrow> throw (Error delete_not_found)
        | Some c \<Rightarrow>
            await (instance_destroy c) (\<lambda>_.
            return \<lparr>deleted_id = i, deleted_flag = True, deleted_message = delete_message\<rparr>)))
     (\<lambda>error.
        if message error = delete_not_found then error
        else Error (delete_failed @ message error))"

text \<open>The pattern \<open>`%${searchTerm}%`\<close>.\<close>

definition contains_pattern :: "js_string \<Rightarrow> js_string" where
  "contains_pattern t = [37] @ t @ [37]"

text \<open>
  \<open>searchChallenges\<close>: the tests of the guard are evaluated from left to right, so
  \<open>trim\<close> and the template literal are reached only with a string.
\<close>

definition searchChallenges :: "js_value \<Rightarrow> challenge list async" where
  "searchChallenges searchTerm = try_catch
     (if \<not> truthy searchTerm \<or> typeof searchTerm \<noteq> ''string''
         \<or> (case searchTerm of JStr t \<Rightarrow> trim t = [] | _ \<Rightarrow> False)
      then return []
      else
        (case searchTerm of
           JStr t \<Rightarrow>
             await (findAll (OpOr
               [Where [(''title'', Like (contains_pattern t))],
                Where [(''description'', Like (contains_pattern t))]])) (\<lambda>challenges.
             return (map toJSON challenges))
         | _ \<Rightarrow> return []))
     (\<lambda>error. Error (search_failed @ message error))"

definition getChallengesByStatus :: "js_value \<Rightarrow> challenge list async" where
  "getChallengesByStatus status_arg = try_catch
     (if \<not> truthy status_arg then throw (Error status_empty)
      else
        await (findAll (Where [(''status'', Equals status_arg)])) (\<lambda>challenges.
        return (map toJSON challenges)))
     (\<lambda>error. Error (status_failed @ message error))"

section \<open>The wildcard reading of a search term\<close>

text \<open>
  The reading of a term that C10 states, written out from the claim's words to be
  compared with what \<open>searchChallenges\<close> computes: \<open>%\<close> stands for any sequence of
  characters, \<open>_\<close> for any single character, every other character for itself. A
  text contains a term in this reading when one of its stretches is read so.
\<close>

fun reads_as :: "js_string \<Rightarrow> js_string \<Rightarrow> bool" where
  "reads_as [] x = (x = [])"
| "reads_as (c # cs) x =
     (if c = 37 then (\<exists>n\<le>length x. reads_as cs (drop n x))
      else if c = 95 then x \<noteq> [] \<and> reads_as cs (tl x)
      else x \<noteq> [] \<and> hd x = c \<and> reads_as cs (tl x))"

definition wildcard_contains :: "js_string \<Rightarrow> js_string \<Rightarrow> bool" where
  "wildcard_contains t x \<longleftrightarrow> (\<exists>pre mid post. x = pre @ mid @ post \<and> reads_as t mid)"

text \<open>
  One text that a term reads as: each \<open>%\<close> left out, each \<open>_\<close> replaced by the letter
  x (120). It holds no wildcard character.
\<close>

definition plain_instance :: "js_string \<Rightarrow> js_string" where
  "plain_instance t = concat (map (\<lambda>c. if c = 37 then [] else if c = 95 then [120] else [c]) t)"

section \<open>Sample data\<close>

text \<open>
  Two stored challenges and stores over them, for the concrete instances below. The
  schema of \<open>working_store\<close> withholds \<open>id\<close> and \<open>created_at\<close> from an update.
\<close>

definition challenge_1 :: challenge where
  "challenge_1 =
     \<lparr> id_col = 1, title = ascii ''abc'', description = ascii ''first steps'',
       reward_type = ascii ''points'', reward_value = 10, due_date = None,
       status = ascii ''pending'', is_weekly = False, recurrence_rule = None,
       community_member_id = 7, created_at = 100 \<rparr>"

definition challenge_2 :: challenge where
  "challenge_2 =
     \<lparr> id_col = 2, title = ascii ''weekly run'', description = ascii ''run 5 km'',
       reward_type = ascii ''badge'', reward_value = 1, due_date = Some 500,
       status = ascii ''done'', is_weekly = True, recurrence_rule = Some (ascii ''weekly''),
       community_member_id = 8, created_at = 200 \<rparr>"

definition working_store :: store where
  "working_store =
     \<lparr> rows = [challenge_1, challenge_2], failures = (\<lambda>n. None), calls = [],
       read_only = {''id'', ''created_at''} \<rparr>"

text \<open>The same table behind a provider that rejects every request with the message.\<close>

definition rejecting_store :: "js_string \<Rightarrow> store" where
  "rejecting_store m = working_store \<lparr> failures := (\<lambda>n. Some m) \<rparr>"


text \<open>The update object \<open>{}\<close>, which supplies no field.\<close>

definition empty_update :: update_data where
  "empty_update =
     \<lparr> new_id = None, new_title = None, new_description = None, new_reward_type = None,
       new_reward_value = None, new_due_date = None, new_status = None, new_is_weekly = None,
       new_recurrence_rule = None, new_community_member_id = None, new_created_at = None \<rparr>"

section \<open>The provider's requests\<close>

lemma request_rejected:
  "failures s (length (calls s)) = Some m \<Longrightarrow>
   request c answer s = (Inl (Error m), s\<lparr>calls := calls s @ [c]\<rparr>)"
  by (simp add: request_def)

lemma request_answered:
  "failures s (length (calls s)) = None \<Longrightarrow>
   request c answer s = (Inr (fst (answer (s\<lparr>calls := calls s @ [c]\<rparr>))),
     snd (answer (s\<lparr>calls := calls s @ [c]\<rparr>)))"
  by (simp add: request_def split: prod.splits)

lemma find_absent: "\<forall>r\<in>set rs. id_col r \<noteq> i \<Longrightarrow> find (\<lambda>r. id_col r = i) rs = None"
  by (simp add: find_None_iff)

lemma find_present:
  "distinct (map id_col rs) \<Longrightarrow> c \<in> set rs \<Longrightarrow> find (\<lambda>r. id_col r = id_col c) rs = Some c"
  by (induction rs) (auto simp: image_iff)

lemma findByPk_rejected:
  "failures s (length (calls s)) = Some m \<Longrightarrow>
   findByPk i s = (Inl (Error m), s\<lparr>calls := calls s @ [FindByPkCall]\<rparr>)"
  by (simp add: findByPk_def request_rejected)

lemma findByPk_answered:
  "failures s (length (calls s)) = None \<Longrightarrow>
   findByPk i s = (Inr (find (\<lambda>r. id_col r = i) (rows s)), s\<lparr>calls := calls s @ [FindByPkCall]\<rparr>)"
  by (simp add: findByPk_def request_answered)


lemma findAll_rejected:
  "failures s (length (calls s)) = Some m \<Longrightarrow>
   findAll w s = (Inl (Error m), s\<lparr>calls := calls s @ [FindAllCall]\<rparr>)"
  by (simp add: findAll_def request_rejected)

lemma findAll_answered:
  "failures s (length (calls s)) = None \<Longrightarrow>
   findAll w s = (Inr (order_desc (filter (holds w) (rows s))), s\<lparr>calls := calls s @ [FindAllCall]\<rparr>)"
  by (simp add: findAll_def request_answered)

lemma toJSON_map: "map toJSON rs = rs"
  by (induction rs) (simp_all add: toJSON_def)

section \<open>Ordering and attributes\<close>


lemma mset_order_desc: "mset (order_desc rs) = mset rs"
  by (simp add: order_desc_def)

lemma set_order_desc: "set (order_desc rs) = set rs"
  by (simp add: order_desc_def)

lemma attr_filters:
  "attr r ''status'' = JStr (status r)"
  "attr r ''community_member_id'' = JNum (community_member_id r)"
  "attr r ''is_weekly'' = JBool (is_weekly r)"
  by (simp_all add: attr_def)

lemma attr_text:
  "attr r ''title'' = JStr (title r)"
  "attr r ''description'' = JStr (description r)"
  by (simp_all add: attr_def)

section \<open>Strings: blank terms and patterns\<close>

lemma trim_blank: "trim t = [] \<longleftrightarrow> (\<forall>c\<in>set t. is_white_space c)"
proof -
  have "dropWhile is_white_space (rev (dropWhile is_white_space t)) = []
        \<longleftrightarrow> dropWhile is_white_space t = []"
  proof (cases "dropWhile is_white_space t")
    case Nil
    then show ?thesis by (simp del: dropWhile_eq_Nil_conv)
  next
    case (Cons c cs)
    then have "\<not> is_white_space c"
      using hd_dropWhile [of is_white_space t] by simp
    with Cons show ?thesis
      by (auto simp: dropWhile_eq_Nil_conv)
  qed
  then show ?thesis
    by (simp add: trim_def dropWhile_eq_Nil_conv)
qed

text \<open>
  The pattern match: \<open>%\<close> alone matches every text; a leading \<open>%\<close> lets the rest
  of the pattern match a suffix; a pattern with no wildcard matches only itself;
  patterns match the concatenation of texts they match.
\<close>

lemma like_any: "like [37] t"
  by (induction t) simp_all

lemma like_percent: "like (37 # ps) t \<longleftrightarrow> (\<exists>u v. t = u @ v \<and> like ps v)"
proof (induction t)
  case Nil
  show ?case by simp
next
  case (Cons c cs)
  show ?case
    by (simp add: Cons Cons_eq_append_conv) blast
qed



lemma like_append: "like p t \<Longrightarrow> like q u \<Longrightarrow> like (p @ q) (t @ u)"
proof (induction p t rule: like.induct)
  case 1
  then show ?case by simp
next
  case (2 c cs)
  then show ?case by simp
next
  case (3 p ps)
  then show ?case
    by (cases u) auto
next
  case (4 p ps c cs)
  then show ?case
    by (auto split: if_splits)
qed

text \<open>
  The pattern match computes the wildcard reading: a pattern matches a text exactly
  when it reads as the text, and the pattern of a search matches exactly the texts
  that contain the term in that reading.
\<close>

lemma like_reads_as: "like p x \<longleftrightarrow> reads_as p x"
proof (induction p arbitrary: x)
  case Nil
  show ?case by (cases x) simp_all
next
  case (Cons c cs)
  show ?case
  proof (cases "c = 37")
    case True
    have "(\<exists>u v. x = u @ v \<and> reads_as cs v) \<longleftrightarrow> (\<exists>n\<le>length x. reads_as cs (drop n x))"
    proof
      assume "\<exists>u v. x = u @ v \<and> reads_as cs v"
      then obtain u v where "x = u @ v" and "reads_as cs v"
        by blast
      then have "length u \<le> length x" and "reads_as cs (drop (length u) x)"
        by simp_all
      then show "\<exists>n\<le>length x. reads_as cs (drop n x)"
        by blast
    next
      assume "\<exists>n\<le>length x. reads_as cs (drop n x)"
      then obtain n where "reads_as cs (drop n x)"
        by blast
      moreover have "x = take n x @ drop n x"
        by simp
      ultimately show "\<exists>u v. x = u @ v \<and> reads_as cs v"
        by blast
    qed
    with True show ?thesis
      by (simp add: like_percent Cons.IH)
  next
    case False
    then show ?thesis
      by (cases x) (auto simp: Cons.IH)
  qed
qed

lemma like_split: "like (p @ q) x \<Longrightarrow> \<exists>a b. x = a @ b \<and> like p a \<and> like q b"
proof (induction p arbitrary: x)
  case Nil
  then have "x = [] @ x \<and> like [] [] \<and> like q x"
    by simp
  then show ?case by blast
next
  case (Cons c cs)
  show ?case
  proof (cases "c = 37")
    case True
    with Cons.prems obtain u v where "x = u @ v" and "like (cs @ q) v"
      by (auto simp: like_percent)
    with Cons.IH obtain a b where "v = a @ b" and "like cs a" and "like q b"
      by blast
    with \<open>x = u @ v\<close> True have "x = (u @ a) @ b" and "like (c # cs) (u @ a)"
      by (auto simp: like_percent)
    with \<open>like q b\<close> show ?thesis
      by blast
  next
    case False
    with Cons.prems obtain d y where x: "x = d # y" and "like (cs @ q) y"
      and d: "c = 95 \<or> c = d"
      by (cases x) (auto split: if_splits)
    with Cons.IH obtain a b where "y = a @ b" and "like cs a" and "like q b"
      by blast
    with x d False have "x = (d # a) @ b" and "like (c # cs) (d # a)"
      by auto
    with \<open>like q b\<close> show ?thesis
      by blast
  qed
qed

lemma like_contains_pattern: "like (contains_pattern t) x \<longleftrightarrow> wildcard_contains t x"
proof
  assume "like (contains_pattern t) x"
  then obtain pre v where "x = pre @ v" and "like (t @ [37]) v"
    by (auto simp: contains_pattern_def like_percent)
  moreover from this obtain mid post where "v = mid @ post" and "like t mid"
    using like_split [of t "[37]" v] by blast
  ultimately show "wildcard_contains t x"
    by (auto simp: wildcard_contains_def like_reads_as)
next
  assume "wildcard_contains t x"
  then obtain pre mid post where x: "x = pre @ mid @ post" and "like t mid"
    by (auto simp: wildcard_contains_def like_reads_as)
  then have "like (t @ [37]) (mid @ post)"
    by (intro like_append like_any)
  with x show "like (contains_pattern t) x"
    by (auto simp: contains_pattern_def like_percent)
qed

lemma wildcard_not_blank:
  assumes "37 \<in> set t \<or> 95 \<in> set t"
  shows "\<not> (\<forall>c\<in>set t. is_white_space c)"
proof -
  have "\<not> is_white_space 37" and "\<not> is_white_space 95"
    by (simp_all add: is_white_space_def)
  with assms show ?thesis
    by blast
qed

lemma reads_as_plain_instance: "reads_as t (plain_instance t)"
proof (induction t)
  case Nil
  show ?case by (simp add: plain_instance_def)
next
  case (Cons c cs)
  then show ?case
    by (auto simp: plain_instance_def intro: exI [of _ 0])
qed

lemma plain_instance_no_wildcard: "37 \<notin> set (plain_instance t) \<and> 95 \<notin> set (plain_instance t)"
  by (induction t) (simp_all add: plain_instance_def)

lemma plain_instance_not_literal:
  assumes "37 \<in> set t \<or> 95 \<in> set t"
  shows "\<not> sublist t (plain_instance t)"
proof
  assume "sublist t (plain_instance t)"
  then have "set t \<subseteq> set (plain_instance t)"
    by (rule set_mono_sublist)
  with assms plain_instance_no_wildcard [of t] show False
    by auto
qed

lemma wildcard_contains_plain_instance: "wildcard_contains t (plain_instance t)"
proof -
  have "plain_instance t = [] @ plain_instance t @ []"
    by simp
  with reads_as_plain_instance [of t] show ?thesis
    unfolding wildcard_contains_def by blast
qed

section \<open>The messages are told apart\<close>

text \<open>
  A wrapped message starts with the letter L, the repository's own messages with K or T.
\<close>

lemma get_failed_not_found: "get_failed @ m \<noteq> get_not_found"
  by (simp add: get_failed_def get_not_found_def ascii_def)

lemma update_failed_not_found: "update_failed @ m \<noteq> update_not_found"
  by (simp add: update_failed_def update_not_found_def ascii_def)

lemma delete_failed_not_found: "delete_failed @ m \<noteq> delete_not_found"
  by (simp add: delete_failed_def delete_not_found_def ascii_def)

lemma status_failed_not_empty: "status_failed @ m \<noteq> status_empty"
  by (simp add: status_failed_def status_empty_def ascii_def)

section \<open>Errors of the operations\<close>

text \<open>
  C1. \<open>getChallengesByStatus\<close> on the empty string: the error for the empty status is
  thrown inside the \<open>try\<close> block, so the \<open>catch\<close> block wraps it like a failure of the
  provider. The caller gets the message of the status listing's failures followed by
  the message of the empty status, not the error of the empty status itself, and gets
  the very same error when the provider rejects the listing of a proper status with
  that message.
\<close>

theorem getChallengesByStatus_empty_rewrapped:
  "getChallengesByStatus (JStr []) s = (Inl (Error (status_failed @ status_empty)), s)
   \<and> fst (getChallengesByStatus (JStr []) s) \<noteq> Inl (Error status_empty)
   \<and> fst (getChallengesByStatus (JStr (ascii ''done'')) (rejecting_store status_empty))
       = fst (getChallengesByStatus (JStr []) (rejecting_store status_empty))"
proof -
  have empty: "getChallengesByStatus (JStr []) s' =
      (Inl (Error (status_failed @ status_empty)), s')" for s'
    by (simp add: getChallengesByStatus_def try_catch_def throw_def)
  have "failures (rejecting_store status_empty)
          (length (calls (rejecting_store status_empty))) = Some status_empty"
    by (simp add: rejecting_store_def)
  then have rejected:
    "fst (getChallengesByStatus (JStr (ascii ''done'')) (rejecting_store status_empty))
      = Inl (Error (status_failed @ status_empty))"
    by (simp add: getChallengesByStatus_def try_catch_def await_def findAll_def
        request_rejected ascii_def)
  have "Inl (Error (status_failed @ status_empty))
      \<noteq> (Inl (Error status_empty) :: js_error + challenge list)"
    using status_failed_not_empty [of status_empty] by simp
  with rejected show ?thesis
    unfolding empty by simp
qed

text \<open>
  C3. When the provider answers the lookup and no row of the table has the identifier,
  \<open>updateChallenge\<close> and \<open>deleteChallenge\<close> fail with the error of their own check,
  \<open>update_not_found\<close> and \<open>delete_not_found\<close>: the \<open>catch\<close> block throws it on as it
  is. It is no wrapped error, whatever message a wrapped error carries, and the table
  is left as it was.
\<close>

theorem not_found_propagates_unchanged:
  assumes "failures s (length (calls s)) = None"
    and "\<forall>r\<in>set (rows s). id_col r \<noteq> i"
  shows "fst (updateChallenge i updateData s) = Inl (Error update_not_found)
    \<and> fst (deleteChallenge i s) = Inl (Error delete_not_found)
    \<and> (\<forall>m. Error update_not_found \<noteq> Error (update_failed @ m))
    \<and> (\<forall>m. Error delete_not_found \<noteq> Error (delete_failed @ m))
    \<and> rows (snd (updateChallenge i updateData s)) = rows s
    \<and> rows (snd (deleteChallenge i s)) = rows s"
proof -
  have "findByPk i s = (Inr None, s\<lparr>calls := calls s @ [FindByPkCall]\<rparr>)"
    using assms by (simp add: findByPk_def request_answered find_absent)
  then have "updateChallenge i updateData s =
      (Inl (Error update_not_found), s\<lparr>calls := calls s @ [FindByPkCall]\<rparr>)"
    and "deleteChallenge i s =
      (Inl (Error delete_not_found), s\<lparr>calls := calls s @ [FindByPkCall]\<rparr>)"
    by (simp_all add: updateChallenge_def deleteChallenge_def try_catch_def await_def throw_def)
  moreover have "update_not_found \<noteq> update_failed @ m"
    and "delete_not_found \<noteq> delete_failed @ m" for m
    using update_failed_not_found [of m] delete_failed_not_found [of m] by auto
  ultimately show ?thesis
    by simp
qed

theorem not_found_propagates_unchanged_witness:
  "fst (updateChallenge 3 (empty_update \<lparr> new_status := Some (ascii ''done'') \<rparr>) working_store)
     = Inl (Error update_not_found)
   \<and> fst (deleteChallenge 3 working_store) = Inl (Error delete_not_found)
   \<and> rows (snd (deleteChallenge 3 working_store)) = [challenge_1, challenge_2]"
proof -
  have "failures working_store (length (calls working_store)) = None"
    by (simp add: working_store_def)
  moreover have "\<forall>r\<in>set (rows working_store). id_col r \<noteq> 3"
    by (simp add: working_store_def challenge_1_def challenge_2_def)
  ultimately show ?thesis
    using not_found_propagates_unchanged [of working_store 3]
    by (simp add: working_store_def)
qed

text \<open>
  C5, as the claim states it, fails: the \<open>catch\<close> block of \<open>getChallengeById\<close> tells
  the missing record from other failures by the message alone. Challenge 1 is stored,
  the provider rejects the lookup with the very message of \<open>get_not_found\<close>, and the
  caller gets that error as it is, not wrapped with \<open>get_failed\<close>: the same error as
  for an identifier with no record.
\<close>

theorem getChallengeById_provider_error_unwrapped:
  "challenge_1 \<in> set (rows (rejecting_store get_not_found))
   \<and> id_col challenge_1 = 1
   \<and> fst (findByPk 1 (rejecting_store get_not_found)) = Inl (Error get_not_found)
   \<and> fst (getChallengeById 1 (rejecting_store get_not_found)) = Inl (Error get_not_found)
   \<and> fst (getChallengeById 1 (rejecting_store get_not_found))
       \<noteq> Inl (Error (get_failed @ get_not_found))"
proof -
  have "findByPk 1 (rejecting_store get_not_found) =
      (Inl (Error get_not_found),
       rejecting_store get_not_found \<lparr>calls := calls (rejecting_store get_not_found) @ [FindByPkCall]\<rparr>)"
    by (rule findByPk_rejected) (simp add: rejecting_store_def)
  then have "fst (findByPk 1 (rejecting_store get_not_found)) = Inl (Error get_not_found)"
    and "fst (getChallengeById 1 (rejecting_store get_not_found)) = Inl (Error get_not_found)"
    by (simp_all add: getChallengeById_def try_catch_def await_def)
  moreover have "challenge_1 \<in> set (rows (rejecting_store get_not_found))"
    and "id_col challenge_1 = 1"
    by (simp_all add: rejecting_store_def working_store_def challenge_1_def)
  ultimately show ?thesis
    using get_failed_not_found [of get_not_found] by simp
qed

text \<open>
  C5, amended. \<open>getChallengeById\<close> returns the record with the identifier when the
  provider answers and the record is stored (identifiers being unique in the table);
  fails with \<open>get_not_found\<close> when the provider answers and no record has the
  identifier; wraps every error of the provider whose message is not that of
  \<open>get_not_found\<close> with \<open>get_failed\<close>; and passes on unchanged an error of the
  provider that carries the message of \<open>get_not_found\<close>. No wrapped error is the
  error \<open>get_not_found\<close>.
\<close>

theorem getChallengeById_outcomes:
  "(failures s (length (calls s)) = None \<and> distinct (map id_col (rows s)) \<and> c \<in> set (rows s)
       \<longrightarrow> fst (getChallengeById (id_col c) s) = Inr (toJSON c))
   \<and> (failures s (length (calls s)) = None \<and> (\<forall>r\<in>set (rows s). id_col r \<noteq> i)
       \<longrightarrow> fst (getChallengeById i s) = Inl (Error get_not_found))
   \<and> (failures s (length (calls s)) = Some m \<and> m \<noteq> get_not_found
       \<longrightarrow> fst (getChallengeById i s) = Inl (Error (get_failed @ m)))
   \<and> (failures s (length (calls s)) = Some get_not_found
       \<longrightarrow> fst (getChallengeById i s) = Inl (Error get_not_found))
   \<and> (\<forall>m'. Error (get_failed @ m') \<noteq> Error get_not_found)"
proof -
  have "fst (getChallengeById (id_col c) s) = Inr (toJSON c)"
    if "failures s (length (calls s)) = None" and "distinct (map id_col (rows s))"
      and "c \<in> set (rows s)"
    using that
    by (simp add: getChallengeById_def try_catch_def await_def findByPk_answered
        find_present return_def)
  moreover have "fst (getChallengeById i s) = Inl (Error get_not_found)"
    if "failures s (length (calls s)) = None" and "\<forall>r\<in>set (rows s). id_col r \<noteq> i"
    using that
    by (simp add: getChallengeById_def try_catch_def await_def findByPk_answered
        find_absent throw_def)
  moreover have "fst (getChallengeById i s) =
      Inl (if m = get_not_found then Error m else Error (get_failed @ m))"
    if "failures s (length (calls s)) = Some m" for m
    using that
    by (simp add: getChallengeById_def try_catch_def await_def findByPk_rejected)
  ultimately show ?thesis
    using get_failed_not_found by simp
qed

theorem getChallengeById_outcomes_witness:
  "fst (getChallengeById 1 working_store) = Inr challenge_1
   \<and> fst (getChallengeById 3 working_store) = Inl (Error get_not_found)
   \<and> fst (getChallengeById 1 (rejecting_store (ascii ''timeout'')))
       = Inl (Error (get_failed @ ascii ''timeout''))
   \<and> fst (getChallengeById 3 (rejecting_store get_not_found)) = Inl (Error get_not_found)"
proof -
  have other: "ascii ''timeout'' \<noteq> get_not_found"
    by (simp add: get_not_found_def ascii_def)
  show ?thesis
    using getChallengeById_outcomes [where s = working_store and c = challenge_1 and i = 3]
      getChallengeById_outcomes [where s = "rejecting_store (ascii ''timeout'')"
        and m = "ascii ''timeout''" and i = 1]
      getChallengeById_outcomes [where s = "rejecting_store get_not_found" and i = 3] other
    by (simp add: rejecting_store_def working_store_def challenge_1_def challenge_2_def
        toJSON_def)
qed

section \<open>Listing with filters\<close>

text \<open>
  What \<open>getAllChallenges\<close> returns when the provider answers: the rows that pass the
  tests of the where object it builds, newest first.
\<close>

lemma getAllChallenges_answered:
  assumes "failures s (length (calls s)) = None"
  shows "getAllChallenges filters s =
    (Inr (order_desc (filter (\<lambda>r.
        (truthy (property filters ''status'') \<longrightarrow>
           JStr (status r) = property filters ''status'')
      \<and> (truthy (property filters ''community_member_id'') \<longrightarrow>
           JNum (community_member_id r) = property filters ''community_member_id'')
      \<and> (property filters ''is_weekly'' \<noteq> JUndefined \<longrightarrow>
           JBool (is_weekly r) = property filters ''is_weekly'')) (rows s))),
     s\<lparr>calls := calls s @ [FindAllCall]\<rparr>)"
  using assms
  by (auto simp: getAllChallenges_def try_catch_def await_def return_def findAll_answered
      attr_filters toJSON_map intro!: arg_cong [where f = order_desc] filter_cong)


text \<open>
  C4. When the provider answers, \<open>getAllChallenges({is_weekly: false})\<close> returns
  exactly the rows whose \<open>is_weekly\<close> is false. A filter object whose \<open>is_weekly\<close>
  is unset (\<open>undefined\<close>) puts no test on \<open>is_weekly\<close>: the rows returned are those
  that pass the tests of the other two filters. A filter object that provides a value
  for \<open>is_weekly\<close> returns exactly the rows that pass the other tests and have that
  value, \<open>false\<close> as well as \<open>true\<close>.
\<close>

theorem is_weekly_filter_when_provided:
  assumes "failures s (length (calls s)) = None"
  shows "(\<exists>rs. fst (getAllChallenges [''is_weekly'' \<mapsto> JBool False] s) = Inr rs
            \<and> mset rs = mset (filter (\<lambda>r. is_weekly r = False) (rows s)))
    \<and> (property filters ''is_weekly'' = JUndefined \<longrightarrow>
         (\<exists>rs. fst (getAllChallenges filters s) = Inr rs
            \<and> mset rs = mset (filter (\<lambda>r.
                  (truthy (property filters ''status'') \<longrightarrow>
                     JStr (status r) = property filters ''status'')
                \<and> (truthy (property filters ''community_member_id'') \<longrightarrow>
                     JNum (community_member_id r) = property filters ''community_member_id''))
                (rows s))))
    \<and> (property filters ''is_weekly'' \<noteq> JUndefined \<longrightarrow>
         (\<exists>rs. fst (getAllChallenges filters s) = Inr rs
            \<and> mset rs = mset (filter (\<lambda>r.
                  (truthy (property filters ''status'') \<longrightarrow>
                     JStr (status r) = property filters ''status'')
                \<and> (truthy (property filters ''community_member_id'') \<longrightarrow>
                     JNum (community_member_id r) = property filters ''community_member_id'')
                \<and> JBool (is_weekly r) = property filters ''is_weekly'')
                (rows s))))"
proof -
  have "fst (getAllChallenges [''is_weekly'' \<mapsto> JBool False] s) =
      Inr (order_desc (filter (\<lambda>r. is_weekly r = False) (rows s)))"
    by (simp add: getAllChallenges_answered [OF assms] property_def)
  then have explicit_false: "\<exists>rs. fst (getAllChallenges [''is_weekly'' \<mapsto> JBool False] s) = Inr rs
      \<and> mset rs = mset (filter (\<lambda>r. is_weekly r = False) (rows s))"
    by (simp add: mset_order_desc)
  show ?thesis
    using explicit_false
    by (simp add: getAllChallenges_answered [OF assms] mset_order_desc)
qed

theorem is_weekly_filter_when_provided_witness:
  "(\<exists>rs. fst (getAllChallenges [''is_weekly'' \<mapsto> JBool False] working_store) = Inr rs
      \<and> mset rs = {#challenge_1#})
   \<and> (\<exists>rs. fst (getAllChallenges Map.empty working_store) = Inr rs
      \<and> mset rs = {#challenge_1, challenge_2#})
   \<and> (\<exists>rs. fst (getAllChallenges [''is_weekly'' \<mapsto> JBool True] working_store) = Inr rs
      \<and> mset rs = {#challenge_2#})"
proof -
  have answered: "failures working_store (length (calls working_store)) = None"
    by (simp add: working_store_def)
  have table: "rows working_store = [challenge_1, challenge_2]"
    "is_weekly challenge_1 = False" "is_weekly challenge_2 = True"
    by (simp_all add: working_store_def challenge_1_def challenge_2_def)
  show ?thesis
    using is_weekly_filter_when_provided [OF answered, of Map.empty]
      is_weekly_filter_when_provided [OF answered, of "[''is_weekly'' \<mapsto> JBool True]"]
    by (simp add: table property_def)
qed



text \<open>
  C9. A filter object whose \<open>status\<close> or \<open>community_member_id\<close> is falsy (the
  empty string, 0, \<open>null\<close>, \<open>false\<close>, \<open>undefined\<close>) behaves exactly like the
  filter object without that key, for every state of the provider. When the provider
  answers, the rows returned are those that pass the tests of the other two filters:
  that key excludes no row.
\<close>

theorem falsy_filter_like_omitted:
  assumes "k = ''status'' \<or> k = ''community_member_id''"
    and "\<not> truthy (property filters k)"
  shows "getAllChallenges filters s = getAllChallenges (filters(k := None)) s
    \<and> (failures s (length (calls s)) = None \<and> k = ''status'' \<longrightarrow>
         (\<exists>rs. fst (getAllChallenges filters s) = Inr rs
            \<and> mset rs = mset (filter (\<lambda>r.
                  (truthy (property filters ''community_member_id'') \<longrightarrow>
                     JNum (community_member_id r) = property filters ''community_member_id'')
                \<and> (property filters ''is_weekly'' \<noteq> JUndefined \<longrightarrow>
                     JBool (is_weekly r) = property filters ''is_weekly''))
                (rows s))))
    \<and> (failures s (length (calls s)) = None \<and> k = ''community_member_id'' \<longrightarrow>
         (\<exists>rs. fst (getAllChallenges filters s) = Inr rs
            \<and> mset rs = mset (filter (\<lambda>r.
                  (truthy (property filters ''status'') \<longrightarrow>
                     JStr (status r) = property filters ''status'')
                \<and> (property filters ''is_weekly'' \<noteq> JUndefined \<longrightarrow>
                     JBool (is_weekly r) = property filters ''is_weekly''))
                (rows s))))"
proof -
  have "getAllChallenges filters = getAllChallenges (filters(k := None))"
    using assms by (auto simp: getAllChallenges_def property_def)
  moreover have "\<exists>rs. fst (getAllChallenges filters s) = Inr rs
      \<and> mset rs = mset (filter (\<lambda>r.
            (truthy (property filters ''community_member_id'') \<longrightarrow>
               JNum (community_member_id r) = property filters ''community_member_id'')
          \<and> (property filters ''is_weekly'' \<noteq> JUndefined \<longrightarrow>
               JBool (is_weekly r) = property filters ''is_weekly''))
          (rows s))"
    if "failures s (length (calls s)) = None" and "k = ''status''"
    using that assms(2) by (simp add: getAllChallenges_answered mset_order_desc)
  moreover have "\<exists>rs. fst (getAllChallenges filters s) = Inr rs
      \<and> mset rs = mset (filter (\<lambda>r.
            (truthy (property filters ''status'') \<longrightarrow>
               JStr (status r) = property filters ''status'')
          \<and> (property filters ''is_weekly'' \<noteq> JUndefined \<longrightarrow>
               JBool (is_weekly r) = property filters ''is_weekly''))
          (rows s))"
    if "failures s (length (calls s)) = None" and "k = ''community_member_id''"
    using that assms(2) by (simp add: getAllChallenges_answered mset_order_desc)
  ultimately show ?thesis
    by simp
qed

theorem falsy_filter_like_omitted_witness:
  "getAllChallenges [''status'' \<mapsto> JStr []] working_store
     = getAllChallenges Map.empty working_store
   \<and> (\<exists>rs. fst (getAllChallenges [''status'' \<mapsto> JStr []] working_store) = Inr rs
        \<and> mset rs = {#challenge_1, challenge_2#})
   \<and> getAllChallenges [''community_member_id'' \<mapsto> JNum 0, ''is_weekly'' \<mapsto> JBool True] working_store
     = getAllChallenges [''is_weekly'' \<mapsto> JBool True] working_store
   \<and> (\<exists>rs. fst (getAllChallenges
             [''community_member_id'' \<mapsto> JNum 0, ''is_weekly'' \<mapsto> JBool True] working_store) = Inr rs
        \<and> mset rs = {#challenge_2#})"
proof -
  let ?f = "[''status'' \<mapsto> JStr []]"
  let ?g = "[''community_member_id'' \<mapsto> JNum 0, ''is_weekly'' \<mapsto> JBool True]"
  have answered: "failures working_store (length (calls working_store)) = None"
    by (simp add: working_store_def)
  have table: "rows working_store = [challenge_1, challenge_2]"
    "is_weekly challenge_1 = False" "is_weekly challenge_2 = True"
    by (simp_all add: working_store_def challenge_1_def challenge_2_def)
  have omitted: "?f(''status'' := None) = Map.empty"
    "?g(''community_member_id'' := None) = [''is_weekly'' \<mapsto> JBool True]"
    by (auto simp: fun_eq_iff)
  have falsy: "\<not> truthy (property ?f ''status'')" "\<not> truthy (property ?g ''community_member_id'')"
    by (simp_all add: property_def)
  note empty_status = falsy_filter_like_omitted [of "''status''" ?f working_store]
  note zero_member = falsy_filter_like_omitted [of "''community_member_id''" ?g working_store]
  have "getAllChallenges ?f working_store = getAllChallenges Map.empty working_store"
    using empty_status falsy(1) by (simp only: omitted) simp
  moreover have "\<exists>rs. fst (getAllChallenges ?f working_store) = Inr rs
      \<and> mset rs = {#challenge_1, challenge_2#}"
    using conjunct1 [OF conjunct2 [OF empty_status]] falsy(1) answered
    by (simp add: table property_def)
  moreover have "getAllChallenges ?g working_store
      = getAllChallenges [''is_weekly'' \<mapsto> JBool True] working_store"
    using zero_member falsy(2) by (simp only: omitted) simp
  moreover have "\<exists>rs. fst (getAllChallenges ?g working_store) = Inr rs
      \<and> mset rs = {#challenge_2#}"
    using conjunct2 [OF conjunct2 [OF zero_member]] falsy(2) answered
    by (simp add: table property_def)
  ultimately show ?thesis
    by (intro conjI)
qed

section \<open>The frame of an update\<close>







section \<open>Search\<close>

text \<open>
  C6. For a search term that is not a string, or is a string of white space only (the
  empty string among them), \<open>searchChallenges\<close> returns the empty list and leaves
  the provider's state as it was: no request is logged, and a provider that would
  reject every request is not asked.
\<close>

theorem searchChallenges_blank_term:
  assumes "\<forall>t. searchTerm = JStr t \<longrightarrow> (\<forall>c\<in>set t. is_white_space c)"
  shows "searchChallenges searchTerm s = (Inr [], s)"
proof (cases searchTerm)
  case (JStr t)
  with assms have "trim t = []"
    by (simp add: trim_blank)
  with JStr show ?thesis
    by (simp add: searchChallenges_def try_catch_def return_def)
qed (simp_all add: searchChallenges_def try_catch_def return_def)

theorem searchChallenges_blank_term_witness:
  "searchChallenges JNull (rejecting_store (ascii ''down'')) = (Inr [], rejecting_store (ascii ''down''))
   \<and> searchChallenges (JStr []) working_store = (Inr [], working_store)
   \<and> searchChallenges (JStr (ascii ''  '')) working_store = (Inr [], working_store)
   \<and> searchChallenges (JNum 5) working_store = (Inr [], working_store)"
  using searchChallenges_blank_term [of JNull "rejecting_store (ascii ''down'')"]
    searchChallenges_blank_term [of "JStr []" working_store]
    searchChallenges_blank_term [of "JStr (ascii ''  '')" working_store]
    searchChallenges_blank_term [of "JNum 5" working_store]
  by (simp add: ascii_def is_white_space_def)

text \<open>
  What \<open>searchChallenges\<close> returns for a term with a character that is no white
  space, when the provider answers.
\<close>

lemma holds_search:
  "holds (OpOr [Where [(''title'', Like p)], Where [(''description'', Like p)]]) =
     (\<lambda>r. like p (title r) \<or> like p (description r))"
  by (simp add: fun_eq_iff attr_text)

lemma searchChallenges_answered:
  assumes "failures s (length (calls s)) = None"
    and "\<not> (\<forall>c\<in>set t. is_white_space c)"
  shows "searchChallenges (JStr t) s =
    (Inr (order_desc (filter (\<lambda>r.
        like (contains_pattern t) (title r) \<or> like (contains_pattern t) (description r)) (rows s))),
     s\<lparr>calls := calls s @ [FindAllCall]\<rparr>)"
proof -
  from assms(2) have "t \<noteq> []" and "trim t \<noteq> []"
    by (auto simp: trim_blank)
  then show ?thesis
    using assms(1)
    by (simp add: searchChallenges_def try_catch_def await_def return_def findAll_answered
        holds_search toJSON_map)
qed




text \<open>
  C10. The term is interpolated into the pattern unescaped, so for every term that
  holds \<open>%\<close> or \<open>_\<close>, when the provider answers, \<open>searchChallenges\<close> returns exactly
  the rows whose title or description contains the term read with \<open>%\<close> as any
  sequence of characters and \<open>_\<close> as any single character. The match is not the
  literal one: a stored row whose title, or description, is the term with each \<open>%\<close>
  left out and each \<open>_\<close> replaced by a letter is returned, although that text does not
  contain the term.
\<close>

theorem search_term_read_with_wildcards:
  assumes "failures s (length (calls s)) = None"
    and "37 \<in> set t \<or> 95 \<in> set t"
  shows "\<exists>rs. fst (searchChallenges (JStr t) s) = Inr rs
    \<and> mset rs = mset (filter (\<lambda>r.
          wildcard_contains t (title r) \<or> wildcard_contains t (description r)) (rows s))
    \<and> (\<forall>r\<in>set (rows s). title r = plain_instance t
          \<longrightarrow> r \<in> set rs \<and> \<not> sublist t (title r))
    \<and> (\<forall>r\<in>set (rows s). description r = plain_instance t
          \<longrightarrow> r \<in> set rs \<and> \<not> sublist t (description r))"
proof -
  let ?rs = "order_desc (filter (\<lambda>r.
      like (contains_pattern t) (title r) \<or> like (contains_pattern t) (description r)) (rows s))"
  have "fst (searchChallenges (JStr t) s) = Inr ?rs"
    by (simp add: searchChallenges_answered [OF assms(1) wildcard_not_blank [OF assms(2)]])
  moreover have "mset ?rs = mset (filter (\<lambda>r.
      wildcard_contains t (title r) \<or> wildcard_contains t (description r)) (rows s))"
    by (simp add: mset_order_desc like_contains_pattern)
  moreover have "r \<in> set ?rs"
    if "r \<in> set (rows s)" and "title r = plain_instance t \<or> description r = plain_instance t"
    for r
    using that wildcard_contains_plain_instance [of t]
    by (auto simp: set_order_desc like_contains_pattern)
  ultimately show ?thesis
    using plain_instance_not_literal [OF assms(2)] by (intro exI [of _ ?rs]) simp
qed

theorem search_term_read_with_wildcards_witness:
  "(\<exists>rs. fst (searchChallenges (JStr (ascii ''a%bc'')) working_store) = Inr rs
      \<and> mset rs = {#challenge_1#}
      \<and> challenge_1 \<in> set rs
      \<and> \<not> sublist (ascii ''a%bc'') (title challenge_1))
   \<and> (\<exists>rs. fst (searchChallenges (JStr (ascii ''a_c'')) working_store) = Inr rs
      \<and> mset rs = {#challenge_1#})
   \<and> title challenge_1 = ascii ''abc''"
proof -
  have answered: "failures working_store (length (calls working_store)) = None"
    by (simp add: working_store_def)
  have wild: "37 \<in> set (ascii ''a%bc'') \<or> 95 \<in> set (ascii ''a%bc'')"
    "37 \<in> set (ascii ''a_c'') \<or> 95 \<in> set (ascii ''a_c'')"
    by (simp_all add: ascii_def)
  have stored: "challenge_1 \<in> set (rows working_store)"
    by (simp add: working_store_def)
  have titled: "title challenge_1 = ascii ''abc''"
    "title challenge_1 = plain_instance (ascii ''a%bc'')"
    by (simp_all add: challenge_1_def plain_instance_def ascii_def)
  have matching:
    "filter (\<lambda>r. wildcard_contains (ascii ''a%bc'') (title r)
        \<or> wildcard_contains (ascii ''a%bc'') (description r)) (rows working_store)
      = [challenge_1]"
    "filter (\<lambda>r. wildcard_contains (ascii ''a_c'') (title r)
        \<or> wildcard_contains (ascii ''a_c'') (description r)) (rows working_store)
      = [challenge_1]"
    by (simp_all add: like_contains_pattern [symmetric] working_store_def challenge_1_def
        challenge_2_def contains_pattern_def ascii_def)
  have "\<exists>rs. fst (searchChallenges (JStr (ascii ''a%bc'')) working_store) = Inr rs
      \<and> mset rs = {#challenge_1#}
      \<and> challenge_1 \<in> set rs
      \<and> \<not> sublist (ascii ''a%bc'') (title challenge_1)"
    using search_term_read_with_wildcards [OF answered wild(1)] stored titled(2)
    by (simp only: matching) auto
  moreover have "\<exists>rs. fst (searchChallenges (JStr (ascii ''a_c'')) working_store) = Inr rs
      \<and> mset rs = {#challenge_1#}"
    using search_term_read_with_wildcards [OF answered wild(2)]
    by (simp only: matching) auto
  ultimately show ?thesis
    using titled(1) by blast
qed

end
